theory Spec2Isabelle
  imports Main "HOL-Library.AList"
begin

section \<open>ObjectHub: a registry of live objects and dotted reference paths\<close>

text \<open>
  A shallow embedding of \<^verbatim>\<open>mmengine/registry/object_hub.py\<close>. The class \<^verbatim>\<open>ObjectHub\<close>
  keeps a dictionary \<^verbatim>\<open>_objects\<close> from aliases to arbitrary Python objects; \<^verbatim>\<open>resolve\<close>
  splits a reference path at the dots, looks the first segment up as an alias and walks
  the remaining segments through dictionaries, lists, tuples and attribute-bearing objects.

  Modelling decisions.
  \<^item> A Python \<^verbatim>\<open>str\<close> is a \<open>string\<close>; each \<open>char\<close> stands for the code point of the same
    number, so the strings of the model are the Python strings whose code points are below
    256. \<^verbatim>\<open>str.isdigit\<close> and \<^verbatim>\<open>int\<close> are modelled exactly on that range.
  \<^item> Python objects are values of the datatype \<open>pyval\<close>: the built-in shapes that
    \<^verbatim>\<open>resolve\<close> distinguishes (\<^verbatim>\<open>dict\<close>, \<^verbatim>\<open>list\<close>, \<^verbatim>\<open>tuple\<close>), the scalars, and instances of
    user classes given by the class name and the table of their attributes. Instances of
    subclasses of \<^verbatim>\<open>dict\<close>, \<^verbatim>\<open>list\<close>, \<^verbatim>\<open>tuple\<close> or \<^verbatim>\<open>str\<close>, and objects whose item or
    attribute access runs user code (\<^verbatim>\<open>__missing__\<close>, \<^verbatim>\<open>__getattr__\<close>, a property), are
    outside the model.
  \<^item> The attributes of the built-in types (\<^verbatim>\<open>list.append\<close>, \<^verbatim>\<open>int.real\<close>, ...) belong to the
    Python runtime, not to this repository: they are a parameter \<open>B\<close> of the model.
  \<^item> A dictionary is an association list in insertion order with distinct keys, as
    \<^verbatim>\<open>list(d.keys())\<close> observes it. Every lookup made by the code uses a \<^verbatim>\<open>str\<close> key, for
    which Python's key equality is structural equality.
  \<^item> An exception is a value: every method returns its result, or the error it raises,
    together with the state of the hub after the call.
  \<^item> The interpreter's configurable limit on the length of a decimal literal accepted by
    \<^verbatim>\<open>int\<close> is not modelled.
\<close>

subsection \<open>Python values\<close>

datatype pyval =
    PNone
  | PBool bool
  | PInt int
  | PStr string
  | PList "pyval list"
  | PTuple "pyval list"
  | PDict "(pyval \<times> pyval) list"
  | PObj string "(string \<times> pyval) list"

text \<open>\<^verbatim>\<open>type(v).__name__\<close>\<close>

fun type_name :: "pyval \<Rightarrow> string" where
  "type_name PNone = ''NoneType''"
| "type_name (PBool b) = ''bool''"
| "type_name (PInt i) = ''int''"
| "type_name (PStr s) = ''str''"
| "type_name (PList xs) = ''list''"
| "type_name (PTuple xs) = ''tuple''"
| "type_name (PDict d) = ''dict''"
| "type_name (PObj cls attrs) = cls"

type_synonym builtin_attrs = "pyval \<Rightarrow> string \<Rightarrow> pyval option"

text \<open>A runtime whose built-in values expose no public attribute, for concrete examples.\<close>

definition no_attrs :: builtin_attrs where
  "no_attrs v name = None"

subsection \<open>String operations\<close>

text \<open>\<^verbatim>\<open>s.split(sep)\<close> for a one-character separator: never the empty list.\<close>

fun str_split :: "char \<Rightarrow> string \<Rightarrow> string list" where
  "str_split sep [] = [[]]"
| "str_split sep (c # cs) =
     (if c = sep then [] # str_split sep cs
      else (case str_split sep cs of
              [] \<Rightarrow> [[c]]
            | p # ps \<Rightarrow> (c # p) # ps))"

text \<open>\<^verbatim>\<open>s.startswith(p)\<close>\<close>

definition startswith :: "string \<Rightarrow> string \<Rightarrow> bool" where
  "startswith s p = (take (length p) s = p)"

text \<open>
  The decimal digits \<^verbatim>\<open>0\<close> to \<^verbatim>\<open>9\<close>, and the code points below 256 that \<^verbatim>\<open>str.isdigit\<close>
  accepts: the decimal digits and the superscripts two, three and one (U+00B2, U+00B3,
  U+00B9).
\<close>

definition ascii_digit :: "char \<Rightarrow> bool" where
  "ascii_digit c = (c \<in> set ''0123456789'')"

definition isdigit_char :: "char \<Rightarrow> bool" where
  "isdigit_char c = (ascii_digit c \<or> c = CHR 0xB2 \<or> c = CHR 0xB3 \<or> c = CHR 0xB9)"

text \<open>\<^verbatim>\<open>s.isdigit()\<close>: at least one character, and all of them digits.\<close>

definition isdigit :: "string \<Rightarrow> bool" where
  "isdigit s = (s \<noteq> [] \<and> list_all isdigit_char s)"

definition digit_value :: "char \<Rightarrow> nat" where
  "digit_value c = of_char c - 48"

text \<open>
  \<^verbatim>\<open>int(s)\<close> on a string that \<^verbatim>\<open>isdigit\<close> accepts: the number in base ten when every
  character is a decimal digit, \<open>None\<close> (Python raises \<^verbatim>\<open>ValueError\<close>) otherwise, since
  \<^verbatim>\<open>int\<close> rejects the superscript digits.
\<close>

definition py_int :: "string \<Rightarrow> nat option" where
  "py_int s =
     (if s \<noteq> [] \<and> list_all ascii_digit s
      then Some (foldl (\<lambda>acc c. 10 * acc + digit_value c) 0 s)
      else None)"

subsection \<open>Exceptions\<close>

text \<open>The exceptions that a single lookup raises inside the \<^verbatim>\<open>try\<close> block of \<^verbatim>\<open>resolve\<close>.\<close>

datatype py_exc = KeyError | AttributeError | IndexError | ValueError

text \<open>
  The failures of the hub's methods, named after the kinds of the specification
  with the values that the message interpolates:
  \<^item> \<open>InvalidAlias alias\<close>: \<^verbatim>\<open>ValueError("Invalid alias: ...")\<close>;
  \<^item> \<open>AliasCollision alias\<close>: \<^verbatim>\<open>ValueError("Alias collision: ...")\<close>;
  \<^item> \<open>UnresolvedAlias ref_name instance_name available\<close>: \<^verbatim>\<open>KeyError("Resolution Failed: Instance ... not found ...")\<close>;
  \<^item> \<open>AccessDenied attr\<close>: \<^verbatim>\<open>PermissionError("Access to private attribute ...")\<close>;
  \<^item> \<open>ResolutionFailed key_path attr type_name\<close>: \<^verbatim>\<open>ValueError("Resolution Failed: ... stopped at ... on ...")\<close>;
  \<^item> \<open>Uncaught e\<close>: an exception of the \<^verbatim>\<open>try\<close> block that no \<^verbatim>\<open>except\<close> clause matches
    and that leaves \<^verbatim>\<open>resolve\<close> as it is.
\<close>

datatype error =
    InvalidAlias pyval
  | AliasCollision pyval
  | UnresolvedAlias string string "pyval list"
  | AccessDenied string
  | ResolutionFailed string string string
  | Uncaught py_exc

subsection \<open>The hub\<close>

record hub =
  instance_name :: string
  objects :: "(pyval \<times> pyval) list"

text \<open>\<^verbatim>\<open>__init__\<close>\<close>

definition new_hub :: "string \<Rightarrow> hub" where
  "new_hub name = \<lparr>instance_name = name, objects = []\<rparr>"

text \<open>\<^verbatim>\<open>isinstance(v, str)\<close>\<close>

fun isinstance_str :: "pyval \<Rightarrow> bool" where
  "isinstance_str (PStr s) = True"
| "isinstance_str v = False"

text \<open>\<^verbatim>\<open>k in d\<close> and \<^verbatim>\<open>list(d.keys())\<close>\<close>

definition contains :: "(pyval \<times> pyval) list \<Rightarrow> pyval \<Rightarrow> bool" where
  "contains d k = (map_of d k \<noteq> None)"

definition keys :: "(pyval \<times> pyval) list \<Rightarrow> pyval list" where
  "keys d = map fst d"

text \<open>
  \<^verbatim>\<open>register\<close>: the alias is whatever object the caller passes. \<^verbatim>\<open>not alias\<close> is evaluated
  on a \<^verbatim>\<open>str\<close> only, where it holds of the empty string.
\<close>

definition register :: "hub \<Rightarrow> pyval \<Rightarrow> pyval \<Rightarrow> bool \<Rightarrow> (error + unit) \<times> hub" where
  "register h alias obj force =
     (if \<not> isinstance_str alias \<or> alias = PStr [] then (Inl (InvalidAlias alias), h)
      else if contains (objects h) alias \<and> \<not> force then (Inl (AliasCollision alias), h)
      else (Inr (), h\<lparr>objects := AList.update alias obj (objects h)\<rparr>))"

text \<open>\<^verbatim>\<open>d[attr]\<close> on a dictionary\<close>

definition getitem_dict :: "(pyval \<times> pyval) list \<Rightarrow> string \<Rightarrow> py_exc + pyval" where
  "getitem_dict d attr =
     (case map_of d (PStr attr) of None \<Rightarrow> Inl KeyError | Some v \<Rightarrow> Inr v)"

text \<open>\<^verbatim>\<open>xs[int(attr)]\<close> on a list or tuple, for a step that \<^verbatim>\<open>isdigit\<close> accepts\<close>

definition getitem_seq :: "pyval list \<Rightarrow> string \<Rightarrow> py_exc + pyval" where
  "getitem_seq xs attr =
     (case py_int attr of
        None \<Rightarrow> Inl ValueError
      | Some i \<Rightarrow> if i < length xs then Inr (xs ! i) else Inl IndexError)"

text \<open>\<^verbatim>\<open>getattr(v, attr)\<close>\<close>

fun py_getattr :: "builtin_attrs \<Rightarrow> pyval \<Rightarrow> string \<Rightarrow> py_exc + pyval" where
  "py_getattr B (PObj cls attrs) attr =
     (case map_of attrs attr of None \<Rightarrow> Inl AttributeError | Some v \<Rightarrow> Inr v)"
| "py_getattr B v attr =
     (case B v attr of None \<Rightarrow> Inl AttributeError | Some r \<Rightarrow> Inr r)"

text \<open>The body of the \<^verbatim>\<open>try\<close> block: one lookup, chosen by the shape of the current object.\<close>

fun lookup :: "builtin_attrs \<Rightarrow> pyval \<Rightarrow> string \<Rightarrow> py_exc + pyval" where
  "lookup B (PDict d) attr = getitem_dict d attr"
| "lookup B (PList xs) attr =
     (if isdigit attr then getitem_seq xs attr else py_getattr B (PList xs) attr)"
| "lookup B (PTuple xs) attr =
     (if isdigit attr then getitem_seq xs attr else py_getattr B (PTuple xs) attr)"
| "lookup B v attr = py_getattr B v attr"

text \<open>
  The \<^verbatim>\<open>for\<close> loop over \<^verbatim>\<open>parts[1:]\<close>. The \<^verbatim>\<open>except\<close> clause names \<^verbatim>\<open>KeyError\<close>,
  \<^verbatim>\<open>AttributeError\<close> and \<^verbatim>\<open>IndexError\<close>; when it runs, \<^verbatim>\<open>current_obj\<close> is still the object
  on which the lookup was made.
\<close>

fun walk :: "builtin_attrs \<Rightarrow> string \<Rightarrow> pyval \<Rightarrow> string list \<Rightarrow> error + pyval" where
  "walk B key_path current_obj [] = Inr current_obj"
| "walk B key_path current_obj (attr # rest) =
     (if startswith attr ''_'' then Inl (AccessDenied attr)
      else (case lookup B current_obj attr of
              Inr v \<Rightarrow> walk B key_path v rest
            | Inl KeyError \<Rightarrow> Inl (ResolutionFailed key_path attr (type_name current_obj))
            | Inl AttributeError \<Rightarrow> Inl (ResolutionFailed key_path attr (type_name current_obj))
            | Inl IndexError \<Rightarrow> Inl (ResolutionFailed key_path attr (type_name current_obj))
            | Inl ValueError \<Rightarrow> Inl (Uncaught ValueError)))"

text \<open>\<^verbatim>\<open>resolve\<close>. The branch for an empty \<^verbatim>\<open>parts\<close> is \<^verbatim>\<open>parts[0]\<close> raising; it is never taken.\<close>

definition resolve :: "builtin_attrs \<Rightarrow> hub \<Rightarrow> string \<Rightarrow> (error + pyval) \<times> hub" where
  "resolve B h key_path =
     (case str_split (CHR ''.'') key_path of
        [] \<Rightarrow> (Inl (Uncaught IndexError), h)
      | ref_name # steps \<Rightarrow>
          (case map_of (objects h) (PStr ref_name) of
             None \<Rightarrow>
               (Inl (UnresolvedAlias ref_name (instance_name h) (keys (objects h))), h)
           | Some current_obj \<Rightarrow> (walk B key_path current_obj steps, h)))"

text \<open>\<^verbatim>\<open>unregister\<close> and \<^verbatim>\<open>clear\<close> return nothing and raise nothing.\<close>

definition unregister :: "hub \<Rightarrow> string \<Rightarrow> hub" where
  "unregister h alias =
     (if contains (objects h) (PStr alias)
      then h\<lparr>objects := AList.delete (PStr alias) (objects h)\<rparr>
      else h)"

definition clear :: "hub \<Rightarrow> hub" where
  "clear h = h\<lparr>objects := []\<rparr>"

subsection \<open>Sequences of calls\<close>

datatype call =
    Register pyval pyval bool
  | Resolve string
  | Unregister string
  | Clear

text \<open>The state of the hub after one call, whether the call returned or raised.\<close>

fun exec :: "builtin_attrs \<Rightarrow> hub \<Rightarrow> call \<Rightarrow> hub" where
  "exec B h (Register alias obj force) = snd (register h alias obj force)"
| "exec B h (Resolve key_path) = snd (resolve B h key_path)"
| "exec B h (Unregister alias) = unregister h alias"
| "exec B h Clear = clear h"

definition run :: "builtin_attrs \<Rightarrow> hub \<Rightarrow> call list \<Rightarrow> hub" where
  "run B h cs = foldl (exec B) h cs"

text \<open>The invariant of the data model: every key of \<^verbatim>\<open>_objects\<close> is a non-empty string.\<close>

fun nonempty_str :: "pyval \<Rightarrow> bool" where
  "nonempty_str (PStr s) = (s \<noteq> [])"
| "nonempty_str v = False"

definition keys_valid :: "hub \<Rightarrow> bool" where
  "keys_valid h = list_all nonempty_str (keys (objects h))"

section \<open>Auxiliary facts\<close>

subsection \<open>Splitting, dictionaries and the invariant\<close>

lemma str_split_not_Nil: "str_split sep s \<noteq> []"
  by (induction s) (auto split: list.splits)

lemma str_split_no_sep: "sep \<notin> set s \<Longrightarrow> str_split sep s = [s]"
  by (induction s) auto

lemma str_split_segments: "p \<in> set (str_split sep s) \<Longrightarrow> sep \<notin> set p"
proof (induction s arbitrary: p)
  case Nil
  then show ?case by simp
next
  case (Cons c cs)
  show ?case
  proof (cases "c = sep")
    case True
    with Cons show ?thesis by auto
  next
    case False
    obtain q qs where q: "str_split sep cs = q # qs"
      using str_split_not_Nil [of sep cs] by (cases "str_split sep cs") auto
    with False Cons.prems have "p = c # q \<or> p \<in> set qs" by simp
    then show ?thesis
    proof
      assume "p = c # q"
      moreover have "sep \<notin> set q" using Cons.IH [of q] q by simp
      ultimately show ?thesis using False by auto
    next
      assume "p \<in> set qs"
      then show ?thesis using Cons.IH [of p] q by simp
    qed
  qed
qed

lemma hd_str_split_no_sep: "sep \<notin> set (hd (str_split sep s))"
  using str_split_segments [of "hd (str_split sep s)" sep s] str_split_not_Nil [of sep s]
  by simp

lemma contains_keys: "contains d k \<longleftrightarrow> k \<in> set (keys d)"
  by (simp add: contains_def keys_def map_of_eq_None_iff)

lemma keys_update: "set (keys (AList.update k v d)) = insert k (set (keys d))"
  using AList.dom_update [of k v d] by (simp add: keys_def)

lemma keys_delete: "set (keys (AList.delete k d)) = set (keys d) - {k}"
  by (simp add: keys_def AList.delete_keys)

lemma keys_valid_iff: "keys_valid h \<longleftrightarrow> (\<forall>k \<in> set (keys (objects h)). nonempty_str k)"
  by (simp add: keys_valid_def list_all_iff)

lemma nonempty_str_iff: "nonempty_str k \<longleftrightarrow> isinstance_str k \<and> k \<noteq> PStr []"
  by (cases k) auto

lemma keys_valid_register: "keys_valid h \<Longrightarrow> keys_valid (snd (register h alias obj force))"
  by (auto simp: keys_valid_iff register_def keys_update nonempty_str_iff)

lemma keys_valid_unregister: "keys_valid h \<Longrightarrow> keys_valid (unregister h alias)"
  by (auto simp: keys_valid_iff unregister_def keys_delete)

lemma keys_valid_clear: "keys_valid (clear h)"
  by (simp add: keys_valid_def clear_def keys_def)

lemma resolve_state: "snd (resolve B h key_path) = h"
  by (simp add: resolve_def split: list.splits option.splits)

lemma keys_valid_exec: "keys_valid h \<Longrightarrow> keys_valid (exec B h c)"
  by (cases c) (simp_all add: keys_valid_register keys_valid_unregister keys_valid_clear resolve_state)

lemma keys_valid_run: "keys_valid h \<Longrightarrow> keys_valid (run B h cs)"
  unfolding run_def by (induction cs arbitrary: h) (simp_all add: keys_valid_exec)

lemma walk_append:
  "walk B kp cur (pre @ rest) =
     (case walk B kp cur pre of Inl e \<Rightarrow> Inl e | Inr v \<Rightarrow> walk B kp v rest)"
  by (induction pre arbitrary: cur) (auto split: sum.splits py_exc.splits)

lemma walk_private: "\<exists>s \<in> set steps. startswith s ''_'' \<Longrightarrow> walk B kp cur steps \<noteq> Inr v"
  by (induction steps arbitrary: cur) (auto split: sum.splits py_exc.splits)

lemma keys_valid_contains: "keys_valid h \<Longrightarrow> contains (objects h) alias \<Longrightarrow> nonempty_str alias"
  by (simp add: keys_valid_iff contains_keys)

subsection \<open>Which lookup raises what\<close>

lemma ascii_digit_isdigit: "py_int attr = Some i \<Longrightarrow> isdigit attr"
  by (auto simp: py_int_def isdigit_def isdigit_char_def list_all_iff split: if_splits)

lemma lookup_missing_key:
  "map_of d (PStr attr) = None \<Longrightarrow> lookup B (PDict d) attr = Inl KeyError"
  by (simp add: getitem_dict_def)

lemma lookup_index_out_of_range:
  "py_int attr = Some i \<Longrightarrow> length xs \<le> i \<Longrightarrow>
   lookup B (PList xs) attr = Inl IndexError \<and> lookup B (PTuple xs) attr = Inl IndexError"
  by (simp add: ascii_digit_isdigit getitem_seq_def)

lemma lookup_missing_attribute:
  "map_of attrs attr = None \<Longrightarrow> lookup B (PObj cls attrs) attr = Inl AttributeError"
  by simp

lemma py_getattr_exc: "py_getattr B cur attr = Inl e \<Longrightarrow> e = AttributeError"
  by (cases cur) (auto split: option.splits)

text \<open>
  The only exception of a lookup that the \<^verbatim>\<open>except\<close> clause does not name comes from \<^verbatim>\<open>int\<close>,
  on a list or tuple, at a step that \<^verbatim>\<open>isdigit\<close> accepts and \<^verbatim>\<open>int\<close> rejects.
\<close>

lemma lookup_ValueError:
  "lookup B cur attr = Inl ValueError \<longleftrightarrow>
     ((\<exists>xs. cur = PList xs \<or> cur = PTuple xs) \<and> isdigit attr \<and> py_int attr = None)"
  by (cases cur)
     (auto simp: getitem_dict_def getitem_seq_def dest: py_getattr_exc
           split: option.splits if_splits)

text \<open>
  The order of the dispatch: a dictionary takes every step as a key; a list or tuple takes
  a step of decimal digits as an index and a step that \<^verbatim>\<open>isdigit\<close> rejects as an attribute
  name; every other object takes the step as an attribute name.
\<close>

lemma lookup_priority:
  "lookup B (PDict d) attr = getitem_dict d attr"
  "py_int attr = Some i \<Longrightarrow>
     lookup B (PList xs) attr = (if i < length xs then Inr (xs ! i) else Inl IndexError)"
  "py_int attr = Some i \<Longrightarrow>
     lookup B (PTuple xs) attr = (if i < length xs then Inr (xs ! i) else Inl IndexError)"
  "\<not> isdigit attr \<Longrightarrow> lookup B (PList xs) attr = py_getattr B (PList xs) attr"
  "\<not> isdigit attr \<Longrightarrow> lookup B (PTuple xs) attr = py_getattr B (PTuple xs) attr"
  "\<forall>d. cur \<noteq> PDict d \<Longrightarrow> \<forall>xs. cur \<noteq> PList xs \<and> cur \<noteq> PTuple xs \<Longrightarrow>
     lookup B cur attr = py_getattr B cur attr"
  by (cases cur; simp add: ascii_digit_isdigit getitem_seq_def)+

subsection \<open>The fresh hub, and registering under another alias\<close>

lemma keys_valid_new_hub: "keys_valid (new_hub name)"
  by (simp add: keys_valid_def new_hub_def keys_def)

lemma resolve_update_other:
  assumes "hd (str_split (CHR ''.'') key_path) \<noteq> a"
  shows "(fst (resolve B (h\<lparr>objects := AList.update (PStr a) v (objects h)\<rparr>) key_path) = Inr r)
       = (fst (resolve B h key_path) = Inr r)"
proof -
  obtain ref_name steps where s: "str_split (CHR ''.'') key_path = ref_name # steps"
    using str_split_not_Nil [of "CHR ''.''" key_path]
    by (cases "str_split (CHR ''.'') key_path") auto
  with assms have "ref_name \<noteq> a" by simp
  then have "map_of (AList.update (PStr a) v (objects h)) (PStr ref_name)
      = map_of (objects h) (PStr ref_name)"
    by (simp add: AList.update_conv')
  then show ?thesis by (simp add: resolve_def s split: option.splits)
qed

section \<open>The claims\<close>

subsection \<open>Registration\<close>

text \<open>
  Claim C1, as amended. For every non-empty string alias \<open>a\<close> that contains no dot and
  every value \<open>v\<close>: after \<^verbatim>\<open>register(a, v)\<close> succeeds, \<^verbatim>\<open>resolve(a)\<close> on the resulting hub
  returns exactly \<open>v\<close>, the registered object itself.
\<close>

theorem register_then_resolve:
  assumes "a \<noteq> []" and "CHR ''.'' \<notin> set a"
    and "register h (PStr a) v force = (Inr (), h')"
  shows "resolve B h' a = (Inr v, h')"
proof -
  from assms(3) have h': "h' = h\<lparr>objects := AList.update (PStr a) v (objects h)\<rparr>"
    by (auto simp: register_def split: if_splits)
  have "map_of (objects h') (PStr a) = Some v"
    by (simp add: h' AList.update_conv')
  moreover have "str_split (CHR ''.'') a = [a]"
    using assms(2) by (rule str_split_no_sep)
  ultimately show ?thesis by (simp add: resolve_def)
qed

text \<open>The theorem at the alias \<^verbatim>\<open>cfg\<close> on a fresh hub.\<close>

theorem register_then_resolve_witness:
  "''cfg'' \<noteq> [] \<and> CHR ''.'' \<notin> set ''cfg''
   \<and> register (new_hub ''ctx'') (PStr ''cfg'') (PInt 7) False
       = (Inr (), \<lparr>instance_name = ''ctx'', objects = [(PStr ''cfg'', PInt 7)]\<rparr>)
   \<and> resolve no_attrs \<lparr>instance_name = ''ctx'', objects = [(PStr ''cfg'', PInt 7)]\<rparr> ''cfg''
       = (Inr (PInt 7), \<lparr>instance_name = ''ctx'', objects = [(PStr ''cfg'', PInt 7)]\<rparr>)"
proof -
  have r: "register (new_hub ''ctx'') (PStr ''cfg'') (PInt 7) False
       = (Inr (), \<lparr>instance_name = ''ctx'', objects = [(PStr ''cfg'', PInt 7)]\<rparr>)"
    by (simp add: register_def new_hub_def contains_def)
  have n: "''cfg'' \<noteq> []" and d: "CHR ''.'' \<notin> set ''cfg''" by simp_all
  show ?thesis using register_then_resolve [OF n d r, of no_attrs] r by simp
qed

text \<open>
  Claim C1 as stated fails for an alias with a dot: \<^verbatim>\<open>register("a.b", 7)\<close> succeeds on a
  fresh hub, and \<^verbatim>\<open>resolve("a.b")\<close> then looks for the alias \<^verbatim>\<open>a\<close> and raises the
  \<^verbatim>\<open>KeyError\<close> of an unknown alias.
\<close>

theorem dotted_alias_not_resolved:
  "register (new_hub ''ctx'') (PStr ''a.b'') (PInt 7) False
     = (Inr (), \<lparr>instance_name = ''ctx'', objects = [(PStr ''a.b'', PInt 7)]\<rparr>)
   \<and> fst (resolve no_attrs \<lparr>instance_name = ''ctx'', objects = [(PStr ''a.b'', PInt 7)]\<rparr> ''a.b'')
     = Inl (UnresolvedAlias ''a'' ''ctx'' [PStr ''a.b''])"
  by (simp add: register_def new_hub_def contains_def resolve_def keys_def)

text \<open>
  Claim C2. In a hub whose keys are non-empty strings, for every alias already present:
  \<^verbatim>\<open>register\<close> without \<^verbatim>\<open>force\<close> fails with the alias collision and leaves the hub as it
  was; with \<^verbatim>\<open>force=True\<close> it succeeds and the entry of the alias becomes the new value,
  every other entry staying as it was.
\<close>

theorem register_existing_alias:
  assumes "keys_valid h" and "contains (objects h) alias"
  shows "register h alias v2 False = (Inl (AliasCollision alias), h)
       \<and> (\<exists>h'. register h alias v2 True = (Inr (), h')
             \<and> map_of (objects h') = (map_of (objects h))(alias \<mapsto> v2)
             \<and> instance_name h' = instance_name h)"
proof -
  have "nonempty_str alias" using assms by (rule keys_valid_contains)
  then have ok: "isinstance_str alias" "alias \<noteq> PStr []"
    by (simp_all add: nonempty_str_iff)
  then show ?thesis using assms(2)
    by (simp add: register_def AList.update_conv')
qed

text \<open>The theorem on a hub that holds \<^verbatim>\<open>cfg\<close>.\<close>

theorem register_existing_alias_witness:
  "keys_valid \<lparr>instance_name = ''ctx'', objects = [(PStr ''cfg'', PInt 1)]\<rparr>
   \<and> contains [(PStr ''cfg'', PInt 1)] (PStr ''cfg'')
   \<and> register \<lparr>instance_name = ''ctx'', objects = [(PStr ''cfg'', PInt 1)]\<rparr> (PStr ''cfg'') (PInt 2) False
       = (Inl (AliasCollision (PStr ''cfg'')), \<lparr>instance_name = ''ctx'', objects = [(PStr ''cfg'', PInt 1)]\<rparr>)
   \<and> register \<lparr>instance_name = ''ctx'', objects = [(PStr ''cfg'', PInt 1)]\<rparr> (PStr ''cfg'') (PInt 2) True
       = (Inr (), \<lparr>instance_name = ''ctx'', objects = [(PStr ''cfg'', PInt 2)]\<rparr>)"
proof -
  let ?h = "\<lparr>instance_name = ''ctx'', objects = [(PStr ''cfg'', PInt 1)]\<rparr>"
  have k: "keys_valid ?h" by (simp add: keys_valid_def keys_def)
  have c: "contains (objects ?h) (PStr ''cfg'')" by (simp add: contains_def)
  have t: "register ?h (PStr ''cfg'') (PInt 2) True
       = (Inr (), \<lparr>instance_name = ''ctx'', objects = [(PStr ''cfg'', PInt 2)]\<rparr>)"
    by (simp add: register_def)
  show ?thesis using register_existing_alias [OF k c, of "PInt 2"] k c t by simp
qed

text \<open>
  Claim C3. For every value and every \<^verbatim>\<open>force\<close> flag, \<^verbatim>\<open>register\<close> fails with the invalid
  alias error when the alias is not a string or is the empty string, and the hub is left
  unchanged.
\<close>

theorem register_invalid_alias:
  "\<not> isinstance_str alias \<or> alias = PStr [] \<Longrightarrow>
   register h alias v force = (Inl (InvalidAlias alias), h)"
  by (auto simp: register_def)

text \<open>The theorem at the alias \<^verbatim>\<open>123\<close> and at the empty string, both with \<^verbatim>\<open>force=True\<close>.\<close>

theorem register_invalid_alias_witness:
  "\<not> isinstance_str (PInt 123)
   \<and> register (new_hub ''ctx'') (PInt 123) (PInt 7) True
        = (Inl (InvalidAlias (PInt 123)), new_hub ''ctx'')
   \<and> register (new_hub ''ctx'') (PStr []) (PInt 7) True
        = (Inl (InvalidAlias (PStr [])), new_hub ''ctx'')"
proof -
  have a: "\<not> isinstance_str (PInt 123) \<or> PInt 123 = PStr []" by simp
  have b: "\<not> isinstance_str (PStr []) \<or> PStr [] = PStr []" by simp
  show ?thesis
    using register_invalid_alias [OF a, of "new_hub ''ctx''" "PInt 7" True]
      register_invalid_alias [OF b, of "new_hub ''ctx''" "PInt 7" True]
    by simp
qed

subsection \<open>Resolution\<close>

text \<open>
  Claim C4, as amended. For every key path whose alias is registered and that has a
  traversal step beginning with an underscore, \<^verbatim>\<open>resolve\<close> returns no value; and when the
  lookups of all the steps before that step succeed, \<^verbatim>\<open>resolve\<close> fails with the access
  denial at that step. The check precedes the lookup of the step: nothing is assumed about
  the object reached, so the failure does not depend on whether a key, index or attribute
  of that name exists.
\<close>

theorem private_step_denied:
  assumes "str_split (CHR ''.'') key_path = ref_name # pre @ attr # rest"
    and "map_of (objects h) (PStr ref_name) = Some obj"
    and "startswith attr ''_''"
  shows "(\<forall>v. fst (resolve B h key_path) \<noteq> Inr v)
       \<and> (\<forall>cur. walk B key_path obj pre = Inr cur \<longrightarrow>
             resolve B h key_path = (Inl (AccessDenied attr), h))"
proof -
  have r: "resolve B h key_path = (walk B key_path obj (pre @ attr # rest), h)"
    using assms(1,2) by (simp add: resolve_def)
  have "\<exists>s \<in> set (pre @ attr # rest). startswith s ''_''"
    using assms(3) by auto
  then have "\<forall>v. walk B key_path obj (pre @ attr # rest) \<noteq> Inr v"
    using walk_private by blast
  moreover have "\<forall>cur. walk B key_path obj pre = Inr cur \<longrightarrow>
      walk B key_path obj (pre @ attr # rest) = Inl (AccessDenied attr)"
    using assms(3) by (simp add: walk_append)
  ultimately show ?thesis using r by simp
qed

text \<open>
  The theorem at \<^verbatim>\<open>obj.inner._secret\<close>, where the object reached does have an attribute
  \<^verbatim>\<open>_secret\<close>.
\<close>

theorem private_step_denied_witness:
  "str_split (CHR ''.'') ''obj.inner._secret'' = ''obj'' # [''inner''] @ ''_secret'' # []
   \<and> map_of [(PStr ''obj'', PObj ''A'' [(''inner'', PObj ''B'' [(''_secret'', PInt 1)])])] (PStr ''obj'')
       = Some (PObj ''A'' [(''inner'', PObj ''B'' [(''_secret'', PInt 1)])])
   \<and> startswith ''_secret'' ''_''
   \<and> walk no_attrs ''obj.inner._secret'' (PObj ''A'' [(''inner'', PObj ''B'' [(''_secret'', PInt 1)])]) [''inner'']
       = Inr (PObj ''B'' [(''_secret'', PInt 1)])
   \<and> resolve no_attrs \<lparr>instance_name = ''ctx'',
        objects = [(PStr ''obj'', PObj ''A'' [(''inner'', PObj ''B'' [(''_secret'', PInt 1)])])]\<rparr>
        ''obj.inner._secret''
       = (Inl (AccessDenied ''_secret''), \<lparr>instance_name = ''ctx'',
        objects = [(PStr ''obj'', PObj ''A'' [(''inner'', PObj ''B'' [(''_secret'', PInt 1)])])]\<rparr>)"
proof -
  let ?o = "PObj ''A'' [(''inner'', PObj ''B'' [(''_secret'', PInt 1)])]"
  let ?h = "\<lparr>instance_name = ''ctx'', objects = [(PStr ''obj'', ?o)]\<rparr>"
  have s: "str_split (CHR ''.'') ''obj.inner._secret'' = ''obj'' # [''inner''] @ ''_secret'' # []"
    by simp
  have m: "map_of (objects ?h) (PStr ''obj'') = Some ?o" by simp
  have p: "startswith ''_secret'' ''_''" by (simp add: startswith_def)
  have w: "walk no_attrs ''obj.inner._secret'' ?o [''inner''] = Inr (PObj ''B'' [(''_secret'', PInt 1)])"
    by (simp add: startswith_def)
  show ?thesis using private_step_denied [OF s m p, of no_attrs] s m p w by simp
qed

text \<open>
  Claim C4 as stated fails when a step before the underscore step cannot be looked up: on
  the empty dictionary registered as \<^verbatim>\<open>cfg\<close>, \<^verbatim>\<open>resolve("cfg.a._b")\<close> stops at \<^verbatim>\<open>a\<close> with the
  \<^verbatim>\<open>ValueError\<close> of a failed resolution, not with the access denial.
\<close>

theorem private_step_after_failed_lookup:
  "map_of [(PStr ''cfg'', PDict [])] (PStr ''cfg'') = Some (PDict [])
   \<and> str_split (CHR ''.'') ''cfg.a._b'' = [''cfg'', ''a'', ''_b'']
   \<and> startswith ''_b'' ''_''
   \<and> fst (resolve no_attrs \<lparr>instance_name = ''ctx'', objects = [(PStr ''cfg'', PDict [])]\<rparr> ''cfg.a._b'')
       = Inl (ResolutionFailed ''cfg.a._b'' ''a'' ''dict'')"
  by (simp add: resolve_def startswith_def getitem_dict_def)

text \<open>
  Claim C5. For every key path whose first dot-separated segment is not a key of
  \<^verbatim>\<open>_objects\<close>, \<^verbatim>\<open>resolve\<close> fails with the unknown-alias error, which carries that segment,
  the name of the hub and the list of all registered aliases.
\<close>

theorem unknown_alias:
  assumes "\<not> contains (objects h) (PStr (hd (str_split (CHR ''.'') key_path)))"
  shows "resolve B h key_path =
           (Inl (UnresolvedAlias (hd (str_split (CHR ''.'') key_path)) (instance_name h)
                   (keys (objects h))), h)"
proof -
  obtain ref_name steps where s: "str_split (CHR ''.'') key_path = ref_name # steps"
    using str_split_not_Nil [of "CHR ''.''" key_path]
    by (cases "str_split (CHR ''.'') key_path") auto
  with assms show ?thesis by (simp add: resolve_def contains_def)
qed

text \<open>The theorem at \<^verbatim>\<open>missing.x\<close> on a hub that holds \<^verbatim>\<open>cfg\<close> and \<^verbatim>\<open>seq\<close>.\<close>

theorem unknown_alias_witness:
  "\<not> contains [(PStr ''cfg'', PInt 1), (PStr ''seq'', PList [])] (PStr (hd (str_split (CHR ''.'') ''missing.x'')))
   \<and> resolve no_attrs \<lparr>instance_name = ''ctx'', objects = [(PStr ''cfg'', PInt 1), (PStr ''seq'', PList [])]\<rparr> ''missing.x''
       = (Inl (UnresolvedAlias ''missing'' ''ctx'' [PStr ''cfg'', PStr ''seq'']),
          \<lparr>instance_name = ''ctx'', objects = [(PStr ''cfg'', PInt 1), (PStr ''seq'', PList [])]\<rparr>)"
proof -
  let ?h = "\<lparr>instance_name = ''ctx'', objects = [(PStr ''cfg'', PInt 1), (PStr ''seq'', PList [])]\<rparr>"
  have c: "\<not> contains (objects ?h) (PStr (hd (str_split (CHR ''.'') ''missing.x'')))"
    by (simp add: contains_def)
  show ?thesis using unknown_alias [OF c, of no_attrs] c by (simp add: keys_def)
qed

text \<open>
  Claim C6, at the input where the code departs from it. The step made of the superscript
  two is accepted by \<^verbatim>\<open>isdigit\<close> and rejected by \<^verbatim>\<open>int\<close>: on a list, the lookup raises
  \<^verbatim>\<open>ValueError\<close>, which the \<^verbatim>\<open>except\<close> clause does not name, so the step is neither used as
  an index nor looked up as an attribute and the exception leaves \<^verbatim>\<open>resolve\<close> unwrapped.
\<close>

theorem superscript_step_uncaught:
  "isdigit [CHR 0xB2] \<and> py_int [CHR 0xB2] = None
   \<and> lookup no_attrs (PList [PInt 10, PInt 20, PInt 30]) [CHR 0xB2] = Inl ValueError
   \<and> fst (resolve no_attrs
        \<lparr>instance_name = ''ctx'', objects = [(PStr ''seq'', PList [PInt 10, PInt 20, PInt 30])]\<rparr>
        (''seq.'' @ [CHR 0xB2]))
      = Inl (Uncaught ValueError)"
  by (simp add: isdigit_def isdigit_char_def ascii_digit_def py_int_def getitem_seq_def
      resolve_def startswith_def)

text \<open>
  The three exceptions that the \<^verbatim>\<open>except\<close> clause names. For every key path and every
  traversal step that is reached and whose lookup raises \<^verbatim>\<open>KeyError\<close>, \<^verbatim>\<open>AttributeError\<close> or
  \<^verbatim>\<open>IndexError\<close> (a missing key, a missing attribute, an index out of range), \<^verbatim>\<open>resolve\<close>
  fails with the failed-resolution error, which carries the whole key path, that step and
  the type name of the object on which the lookup was made; no value is returned.
\<close>

lemma failed_lookup_reported:
  assumes "str_split (CHR ''.'') key_path = ref_name # pre @ attr # rest"
    and "map_of (objects h) (PStr ref_name) = Some obj"
    and "walk B key_path obj pre = Inr cur"
    and "\<not> startswith attr ''_''"
    and "lookup B cur attr = Inl e"
    and "e = KeyError \<or> e = AttributeError \<or> e = IndexError"
  shows "resolve B h key_path = (Inl (ResolutionFailed key_path attr (type_name cur)), h)"
proof -
  have "resolve B h key_path = (walk B key_path obj (pre @ attr # rest), h)"
    using assms(1,2) by (simp add: resolve_def)
  moreover have "walk B key_path obj (pre @ attr # rest) = walk B key_path cur (attr # rest)"
    using assms(3) by (simp add: walk_append)
  moreover have "walk B key_path cur (attr # rest) =
      Inl (ResolutionFailed key_path attr (type_name cur))"
    using assms(4,5,6) by auto
  ultimately show ?thesis by simp
qed

text \<open>The lemma at \<^verbatim>\<open>cfg.a.c\<close> on the dictionary \<^verbatim>\<open>{"a": {"b": 7}}\<close>.\<close>

lemma failed_lookup_reported_example:
  "str_split (CHR ''.'') ''cfg.a.c'' = ''cfg'' # [''a''] @ ''c'' # []
   \<and> map_of [(PStr ''cfg'', PDict [(PStr ''a'', PDict [(PStr ''b'', PInt 7)])])] (PStr ''cfg'')
       = Some (PDict [(PStr ''a'', PDict [(PStr ''b'', PInt 7)])])
   \<and> walk no_attrs ''cfg.a.c'' (PDict [(PStr ''a'', PDict [(PStr ''b'', PInt 7)])]) [''a'']
       = Inr (PDict [(PStr ''b'', PInt 7)])
   \<and> \<not> startswith ''c'' ''_''
   \<and> lookup no_attrs (PDict [(PStr ''b'', PInt 7)]) ''c'' = Inl KeyError
   \<and> resolve no_attrs
        \<lparr>instance_name = ''ctx'',
         objects = [(PStr ''cfg'', PDict [(PStr ''a'', PDict [(PStr ''b'', PInt 7)])])]\<rparr> ''cfg.a.c''
       = (Inl (ResolutionFailed ''cfg.a.c'' ''c'' ''dict''),
          \<lparr>instance_name = ''ctx'',
           objects = [(PStr ''cfg'', PDict [(PStr ''a'', PDict [(PStr ''b'', PInt 7)])])]\<rparr>)"
proof -
  let ?o = "PDict [(PStr ''a'', PDict [(PStr ''b'', PInt 7)])]"
  let ?h = "\<lparr>instance_name = ''ctx'', objects = [(PStr ''cfg'', ?o)]\<rparr>"
  have s: "str_split (CHR ''.'') ''cfg.a.c'' = ''cfg'' # [''a''] @ ''c'' # []" by simp
  have m: "map_of (objects ?h) (PStr ''cfg'') = Some ?o" by simp
  have w: "walk no_attrs ''cfg.a.c'' ?o [''a''] = Inr (PDict [(PStr ''b'', PInt 7)])"
    by (simp add: startswith_def getitem_dict_def)
  have p: "\<not> startswith ''c'' ''_''" by (simp add: startswith_def)
  have l: "lookup no_attrs (PDict [(PStr ''b'', PInt 7)]) ''c'' = Inl KeyError"
    by (simp add: getitem_dict_def)
  have e: "KeyError = KeyError \<or> KeyError = AttributeError \<or> KeyError = IndexError" by simp
  show ?thesis using failed_lookup_reported [OF s m w p l e] s m w p l by simp
qed

text \<open>
  Claim C7, at the input where the code departs from it. On the dictionary
  \<^verbatim>\<open>{"pts": (1, 2)}\<close> registered as \<^verbatim>\<open>cfg\<close>, the key path \<^verbatim>\<open>cfg.pts.\<close> followed by the
  superscript three reaches the tuple; the last step is not private and its lookup fails,
  in \<^verbatim>\<open>int\<close>, with a \<^verbatim>\<open>ValueError\<close> that the \<^verbatim>\<open>except\<close> clause does not name. \<^verbatim>\<open>resolve\<close>
  lets that exception out as it is: the failure is not the failed-resolution error and
  carries neither the key path, nor the step, nor the type name \<^verbatim>\<open>tuple\<close>.
\<close>

theorem failed_conversion_not_reported:
  "str_split (CHR ''.'') (''cfg.pts.'' @ [CHR 0xB3]) = [''cfg'', ''pts'', [CHR 0xB3]]
   \<and> walk no_attrs (''cfg.pts.'' @ [CHR 0xB3]) (PDict [(PStr ''pts'', PTuple [PInt 1, PInt 2])]) [''pts'']
       = Inr (PTuple [PInt 1, PInt 2])
   \<and> \<not> startswith [CHR 0xB3] ''_''
   \<and> lookup no_attrs (PTuple [PInt 1, PInt 2]) [CHR 0xB3] = Inl ValueError
   \<and> resolve no_attrs
        \<lparr>instance_name = ''ctx'',
         objects = [(PStr ''cfg'', PDict [(PStr ''pts'', PTuple [PInt 1, PInt 2])])]\<rparr>
        (''cfg.pts.'' @ [CHR 0xB3])
       = (Inl (Uncaught ValueError),
          \<lparr>instance_name = ''ctx'',
           objects = [(PStr ''cfg'', PDict [(PStr ''pts'', PTuple [PInt 1, PInt 2])])]\<rparr>)
   \<and> Uncaught ValueError \<noteq> ResolutionFailed (''cfg.pts.'' @ [CHR 0xB3]) [CHR 0xB3] ''tuple''"
  by (simp add: isdigit_def isdigit_char_def ascii_digit_def py_int_def getitem_seq_def
      getitem_dict_def resolve_def startswith_def)

text \<open>
  Claim C8. For every key path and every hub, \<^verbatim>\<open>resolve\<close> leaves the hub, and with it the
  dictionary \<^verbatim>\<open>_objects\<close>, as it was, whether it returns a value or raises.
\<close>

theorem resolve_keeps_hub: "snd (resolve B h key_path) = h"
  by (simp add: resolve_def split: list.splits option.splits)

subsection \<open>The invariant and dotted aliases\<close>

text \<open>
  Claim C9. In every hub reached from a fresh one by any sequence of \<^verbatim>\<open>register\<close>,
  \<^verbatim>\<open>resolve\<close>, \<^verbatim>\<open>unregister\<close> and \<^verbatim>\<open>clear\<close> calls, with any arguments and whether or not the
  calls succeed, every key of \<^verbatim>\<open>_objects\<close> is a non-empty string.
\<close>

theorem keys_are_nonempty_strings:
  "\<forall>k \<in> set (keys (objects (run B (new_hub name) cs))). \<exists>s. k = PStr s \<and> s \<noteq> []"
proof -
  have "keys_valid (run B (new_hub name) cs)"
    using keys_valid_new_hub by (rule keys_valid_run)
  then have "\<forall>k \<in> set (keys (objects (run B (new_hub name) cs))). nonempty_str k"
    by (simp add: keys_valid_iff)
  moreover have "\<And>k. nonempty_str k \<Longrightarrow> \<exists>s. k = PStr s \<and> s \<noteq> []"
  proof -
    fix k assume "nonempty_str k" then show "\<exists>s. k = PStr s \<and> s \<noteq> []" by (cases k) auto
  qed
  ultimately show ?thesis by blast
qed

text \<open>
  The theorem on a sequence of calls that tries the alias \<^verbatim>\<open>123\<close> and the empty alias.
\<close>

theorem keys_are_nonempty_strings_witness:
  "run no_attrs (new_hub ''ctx'')
     [Register (PStr ''cfg'') (PInt 1) False, Register (PInt 123) (PInt 2) True,
      Register (PStr []) (PInt 3) True, Resolve ''cfg.x'', Register (PStr ''seq'') (PList []) False,
      Unregister ''cfg'', Register (PStr ''a.b'') PNone False]
     = \<lparr>instance_name = ''ctx'', objects = [(PStr ''seq'', PList []), (PStr ''a.b'', PNone)]\<rparr>
   \<and> keys [(PStr ''seq'', PList []), (PStr ''a.b'', PNone)] = [PStr ''seq'', PStr ''a.b'']
   \<and> (\<exists>s. PStr ''seq'' = PStr s \<and> s \<noteq> []) \<and> (\<exists>s. PStr ''a.b'' = PStr s \<and> s \<noteq> [])"
proof -
  let ?cs = "[Register (PStr ''cfg'') (PInt 1) False, Register (PInt 123) (PInt 2) True,
      Register (PStr []) (PInt 3) True, Resolve ''cfg.x'', Register (PStr ''seq'') (PList []) False,
      Unregister ''cfg'', Register (PStr ''a.b'') PNone False]"
  have r: "run no_attrs (new_hub ''ctx'') ?cs
     = \<lparr>instance_name = ''ctx'', objects = [(PStr ''seq'', PList []), (PStr ''a.b'', PNone)]\<rparr>"
    by (simp add: run_def register_def resolve_def unregister_def new_hub_def contains_def)
  have k: "keys [(PStr ''seq'', PList []), (PStr ''a.b'', PNone)] = [PStr ''seq'', PStr ''a.b'']"
    by (simp add: keys_def)
  show ?thesis
    using keys_are_nonempty_strings [of no_attrs "''ctx''" ?cs] r k by simp
qed

text \<open>
  Claim C10. For every alias that contains a dot: \<^verbatim>\<open>register\<close> accepts it, the segment
  that \<^verbatim>\<open>resolve\<close> looks up is never that alias, and registering it changes nothing about
  which key paths resolve, nor to which values.
\<close>

theorem dotted_alias_unreachable:
  assumes "CHR ''.'' \<in> set a"
  shows "hd (str_split (CHR ''.'') key_path) \<noteq> a
       \<and> fst (register h (PStr a) v True) = Inr ()
       \<and> (\<forall>r. fst (resolve B (snd (register h (PStr a) v True)) key_path) = Inr r
              \<longleftrightarrow> fst (resolve B h key_path) = Inr r)"
proof -
  have ne: "hd (str_split (CHR ''.'') key_path) \<noteq> a"
    using assms hd_str_split_no_sep [of "CHR ''.''" key_path] by auto
  from assms have "a \<noteq> []" by auto
  then have reg: "register h (PStr a) v True
      = (Inr (), h\<lparr>objects := AList.update (PStr a) v (objects h)\<rparr>)"
    by (simp add: register_def)
  show ?thesis using ne reg resolve_update_other [OF ne] by simp
qed

text \<open>
  The theorem at the alias \<^verbatim>\<open>a.b\<close> on a fresh hub: after the registration, \<^verbatim>\<open>resolve("a.b")\<close>
  still returns no value.
\<close>

theorem dotted_alias_unreachable_witness:
  "CHR ''.'' \<in> set ''a.b''
   \<and> hd (str_split (CHR ''.'') ''a.b'') \<noteq> ''a.b''
   \<and> fst (register (new_hub ''ctx'') (PStr ''a.b'') (PInt 7) True) = Inr ()
   \<and> (\<forall>r. fst (resolve no_attrs (snd (register (new_hub ''ctx'') (PStr ''a.b'') (PInt 7) True)) ''a.b'') \<noteq> Inr r)"
proof -
  have d: "CHR ''.'' \<in> set ''a.b''" by simp
  have e: "\<forall>r. fst (resolve no_attrs (new_hub ''ctx'') ''a.b'') \<noteq> Inr r"
    by (simp add: resolve_def new_hub_def)
  show ?thesis
    using dotted_alias_unreachable [OF d, of "''a.b''" "new_hub ''ctx''" "PInt 7" no_attrs] d e
    by simp
qed

end
